theory Spec2Isabelle
  imports Main
begin

section \<open>The world the script runs in\<close>

text \<open>
  \<^verbatim>\<open>download-music.py\<close> is a sequence of operating-system calls and of two external
  programs (\<^verbatim>\<open>youtube-dl\<close>, \<^verbatim>\<open>sox\<close>). The model passes an explicit world: the current
  working directory of the process, the regular files (absolute path to content) and the
  trace of everything the process has done so far, in order.

  What the script cannot decide is a parameter, collected in \<open>env\<close>: what an external
  program does to the files and which return code it gives (or that the user's interrupt
  arrives while the script waits for it), the order in which the directory is listed,
  the name of the temporary file, the expansion of \<^verbatim>\<open>~/Downloads\<close>, and what the
  \<^verbatim>\<open>tempfile\<close> module of the Python at hand does when the temporary file is gone.
  The directory \<^verbatim>\<open>~/Downloads\<close> is taken to exist, the external programs to be
  installed and the list file to be writable: of the errors of the operating system, only
  the one at the removal of the temporary file is part of the model.
\<close>

type_synonym path = string

type_synonym fs = "path \<rightharpoonup> string"

datatype returned = Returncode int | Interrupted

datatype event =
    Chdir path
  | IsFile path
  | Spawn "string list" returned
  | Truncate path
  | Listdir path
  | MkTemp path
  | Unlink path
  | Print string
  | PrintErr string

record world =
  cwd :: path
  files :: fs
  trace :: "event list"

datatype exn = SystemExit string | KeyboardInterrupt | FileNotFoundError path

record env =
  downloads_dir :: path
  run_tool :: "string list \<Rightarrow> path \<Rightarrow> fs \<Rightarrow> returned \<times> fs"
  listdir :: "path \<Rightarrow> fs \<Rightarrow> string list"
  tmp_name :: path
  unlink_raises :: bool

type_synonym 'a prog = "world \<Rightarrow> (exn + 'a) \<times> world"

definition return_prog :: "'a \<Rightarrow> 'a prog" where
  "return_prog x w = (Inr x, w)"

definition bind_prog :: "'a prog \<Rightarrow> ('a \<Rightarrow> 'b prog) \<Rightarrow> 'b prog" where
  "bind_prog m f w = (case m w of (Inl e, w') \<Rightarrow> (Inl e, w') | (Inr x, w') \<Rightarrow> f x w')"

subsection \<open>Operating-system calls\<close>

text \<open>A relative path is looked up from the working directory, an absolute one as it is.\<close>

definition resolve :: "path \<Rightarrow> path \<Rightarrow> path" where
  "resolve d p = (case p of [] \<Rightarrow> d | c # _ \<Rightarrow> if c = CHR ''/'' then p else d @ ''/'' @ p)"

definition log_event :: "event \<Rightarrow> world \<Rightarrow> world" where
  "log_event e w = w\<lparr>trace := trace w @ [e]\<rparr>"

definition os_chdir :: "path \<Rightarrow> world \<Rightarrow> world" where
  "os_chdir d w = log_event (Chdir (resolve (cwd w) d)) (w\<lparr>cwd := resolve (cwd w) d\<rparr>)"

definition os_path_isfile :: "path \<Rightarrow> world \<Rightarrow> bool \<times> world" where
  "os_path_isfile p w =
     (files w (resolve (cwd w) p) \<noteq> None, log_event (IsFile (resolve (cwd w) p)) w)"

text \<open>\<^verbatim>\<open>with open(p, 'w') as f: f.write('')\<close>: the file is created or truncated.\<close>

definition open_w_write_empty :: "path \<Rightarrow> world \<Rightarrow> world" where
  "open_w_write_empty p w =
     log_event (Truncate (resolve (cwd w) p))
       (w\<lparr>files := (files w)(resolve (cwd w) p \<mapsto> [])\<rparr>)"

definition os_listdir :: "env \<Rightarrow> world \<Rightarrow> string list \<times> world" where
  "os_listdir env w = (listdir env (cwd w) (files w), log_event (Listdir (cwd w)) w)"

definition py_print :: "string \<Rightarrow> world \<Rightarrow> world" where
  "py_print s w = log_event (Print s) w"

text \<open>
  \<^verbatim>\<open>subprocess.run(argv)\<close> blocks until the child ends. The child works in the
  script's directory on the script's files; the script gets the return code, or
  \<^verbatim>\<open>KeyboardInterrupt\<close> when the interrupt signal arrives while it waits.
\<close>

definition subprocess_run :: "env \<Rightarrow> string list \<Rightarrow> world \<Rightarrow> returned \<times> world" where
  "subprocess_run env argv w =
     (case run_tool env argv (cwd w) (files w) of
        (r, fs') \<Rightarrow> (r, log_event (Spawn argv r) (w\<lparr>files := fs'\<rparr>)))"

text \<open>
  \<^verbatim>\<open>NamedTemporaryFile(suffix='.mp3')\<close> as a context manager. On entry there is a new,
  empty file. On exit, whether the block ends normally or by an exception, the file is
  closed and \<^verbatim>\<open>os.unlink\<close> is called on its name. When the file is gone by then, the
  \<^verbatim>\<open>tempfile\<close> module of Python up to 3.11 lets the \<^verbatim>\<open>FileNotFoundError\<close> of
  \<^verbatim>\<open>os.unlink\<close> out of the block, in place of the exception that ended the block if
  there was one (\<open>unlink_raises\<close>); later versions ignore it. Otherwise the block ends as
  its body did, \<open>r\<close>.
\<close>

definition tmp_enter :: "env \<Rightarrow> world \<Rightarrow> path \<times> world" where
  "tmp_enter env w =
     (tmp_name env, log_event (MkTemp (tmp_name env)) (w\<lparr>files := (files w)(tmp_name env \<mapsto> [])\<rparr>))"

definition tmp_exit :: "env \<Rightarrow> path \<Rightarrow> exn + unit \<Rightarrow> world \<Rightarrow> (exn + unit) \<times> world" where
  "tmp_exit env t r w =
     (if files w t = None then
        (if unlink_raises env then Inl (FileNotFoundError t) else r, log_event (Unlink t) w)
      else (r, log_event (Unlink t) (w\<lparr>files := (files w)(t := None)\<rparr>)))"

section \<open>The script\<close>

subsection \<open>\<^verbatim>\<open>check_dir\<close>\<close>

definition dquote :: string where
  "dquote = [CHR 0x22]"

definition missing_list_msg :: "path \<Rightarrow> string" where
  "missing_list_msg song_list = ''ERROR: Could not find song list '' @ dquote @ song_list @ dquote @ ''.''"

definition check_dir :: "env \<Rightarrow> bool \<Rightarrow> path \<Rightarrow> bool \<Rightarrow> unit prog" where
  "check_dir env wd song_list file_needed w =
     (let w1 = (if \<not> wd then os_chdir (downloads_dir env) w else w) in
      if file_needed then
        (case os_path_isfile song_list w1 of
           (found, w2) \<Rightarrow>
             if \<not> found then (Inl (SystemExit (missing_list_msg song_list)), w2)
             else (Inr (), w2))
      else (Inr (), w1))"

subsection \<open>\<^verbatim>\<open>download\<close>\<close>

definition dl_args :: "path \<Rightarrow> bool \<Rightarrow> bool \<Rightarrow> bool \<Rightarrow> string list" where
  "dl_args song_list quiet force playlist =
     [''--extract-audio'', ''--audio-format'', ''mp3'', ''--audio-quality'', ''0'', ''--geo-bypass'']
     @ (if quiet then [''-q'', ''--console-title''] else [])
     @ (if force then [''--ignore-errors''] else [])
     @ (if playlist then [''--yes-playlist''] else [''--no-playlist''])
     @ [''--default-search'', ''ytsearch'', ''-a'', song_list, ''--output'', ''%(title)s.%(ext)s'']"

definition download_failed_msg :: string where
  "download_failed_msg =
     ''ERROR: Could not download from list. Try '' @ dquote @ ''sudo youtube-dl -U'' @ dquote @ ''.''"

definition download :: "env \<Rightarrow> path \<Rightarrow> bool \<Rightarrow> bool \<Rightarrow> bool \<Rightarrow> unit prog" where
  "download env song_list quiet force playlist w =
     (case subprocess_run env (''youtube-dl'' # dl_args song_list quiet force playlist) w of
        (Interrupted, w') \<Rightarrow> (Inl KeyboardInterrupt, w')
      | (Returncode rc, w') \<Rightarrow>
          if rc \<noteq> 0 then (Inl (SystemExit download_failed_msg), w') else (Inr (), w'))"

subsection \<open>\<^verbatim>\<open>trim_mp3s\<close>\<close>

definition endswith :: "string \<Rightarrow> string \<Rightarrow> bool" where
  "endswith s suf = (length suf \<le> length s \<and> drop (length s - length suf) s = suf)"

definition sox_to_tmp :: "string \<Rightarrow> path \<Rightarrow> string list" where
  "sox_to_tmp f t = [''sox'', f, t, ''reverse'', ''silence'', ''1'', ''0.1'', ''0.1%'', ''reverse'']"

definition sox_from_tmp :: "string \<Rightarrow> path \<Rightarrow> string list" where
  "sox_from_tmp f t = [''sox'', t, f, ''silence'', ''1'', ''0.1'', ''0.1%'']"

definition trim_failed_msg :: "string \<Rightarrow> string" where
  "trim_failed_msg f = ''WARNING: Failed to trim silence from '' @ f"

definition trimmed_msg :: "string \<Rightarrow> string" where
  "trimmed_msg f = ''Silence trimmed from '' @ f"

text \<open>The report at the end of one iteration (lines 58 and 59).\<close>

definition report :: "bool \<Rightarrow> string \<Rightarrow> int \<Rightarrow> int \<Rightarrow> world \<Rightarrow> world" where
  "report quiet f ret1 ret2 w =
     (if ret1 \<noteq> 0 \<or> ret2 \<noteq> 0 then py_print (trim_failed_msg f) w
      else if \<not> quiet then py_print (trimmed_msg f) w
      else w)"

text \<open>The body of the \<^verbatim>\<open>for\<close> loop for one directory entry.\<close>

definition trim_file :: "env \<Rightarrow> bool \<Rightarrow> path \<Rightarrow> string \<Rightarrow> unit prog" where
  "trim_file env quiet t f w =
     (if \<not> endswith f ''.mp3'' then (Inr (), w)
      else
        (case subprocess_run env (sox_to_tmp f t) w of
           (Interrupted, w1) \<Rightarrow> (Inl KeyboardInterrupt, w1)
         | (Returncode ret1, w1) \<Rightarrow>
             (case subprocess_run env (sox_from_tmp f t) w1 of
                (Interrupted, w2) \<Rightarrow> (Inl KeyboardInterrupt, w2)
              | (Returncode ret2, w2) \<Rightarrow> (Inr (), report quiet f ret1 ret2 w2))))"

fun trim_loop :: "env \<Rightarrow> bool \<Rightarrow> path \<Rightarrow> string list \<Rightarrow> unit prog" where
  "trim_loop env quiet t [] w = (Inr (), w)"
| "trim_loop env quiet t (f # fs) w =
     (case trim_file env quiet t f w of
        (Inl e, w') \<Rightarrow> (Inl e, w')
      | (Inr _, w') \<Rightarrow> trim_loop env quiet t fs w')"

definition trim_mp3s :: "env \<Rightarrow> bool \<Rightarrow> unit prog" where
  "trim_mp3s env quiet w =
     (case tmp_enter env w of
        (t, w0) \<Rightarrow>
          (case os_listdir env w0 of
             (names, w1) \<Rightarrow>
               (case trim_loop env quiet t names w1 of
                  (r, w2) \<Rightarrow> tmp_exit env t r w2)))"

subsection \<open>The command line\<close>

text \<open>
  The options as \<^verbatim>\<open>argparse\<close> recognises them, in the order of the command line.
  How \<^verbatim>\<open>argparse\<close> reads the raw words (abbreviations, \<^verbatim>\<open>--song-list=FILE\<close>,
  \<^verbatim>\<open>--help\<close>) is the library's business and not modelled; the destinations, the defaults
  and the mutually exclusive group are those of lines 68 to 83.
\<close>

datatype cli_opt = SongList string | Playlist | Force | Quiet | Wd | NoTrim | NoDownload | NoClear

record args =
  arg_song_list :: path
  arg_playlist :: bool
  arg_force :: bool
  arg_quiet :: bool
  arg_wd :: bool
  arg_trim :: bool
  arg_download :: bool
  arg_clear :: bool

definition default_args :: args where
  "default_args =
     \<lparr>arg_song_list = ''song-list.txt'', arg_playlist = False, arg_force = False,
      arg_quiet = False, arg_wd = False, arg_trim = True, arg_download = True,
      arg_clear = True\<rparr>"

datatype parse_error = NotAllowedWith string string

text \<open>
  \<open>parse_opts\<close> takes the options from left to right. The two flags say whether
  \<^verbatim>\<open>--notrim\<close> and \<^verbatim>\<open>--nodownload\<close> were seen: they are the members of the mutually
  exclusive group (lines 77 to 81), and a member is an error once the other was seen.
\<close>

fun parse_opts :: "cli_opt list \<Rightarrow> bool \<Rightarrow> bool \<Rightarrow> args \<Rightarrow> parse_error + args" where
  "parse_opts [] seen_notrim seen_nodownload a = Inr a"
| "parse_opts (SongList p # os) seen_notrim seen_nodownload a =
     parse_opts os seen_notrim seen_nodownload (a\<lparr>arg_song_list := p\<rparr>)"
| "parse_opts (Playlist # os) seen_notrim seen_nodownload a =
     parse_opts os seen_notrim seen_nodownload (a\<lparr>arg_playlist := True\<rparr>)"
| "parse_opts (Force # os) seen_notrim seen_nodownload a =
     parse_opts os seen_notrim seen_nodownload (a\<lparr>arg_force := True\<rparr>)"
| "parse_opts (Quiet # os) seen_notrim seen_nodownload a =
     parse_opts os seen_notrim seen_nodownload (a\<lparr>arg_quiet := True\<rparr>)"
| "parse_opts (Wd # os) seen_notrim seen_nodownload a =
     parse_opts os seen_notrim seen_nodownload (a\<lparr>arg_wd := True\<rparr>)"
| "parse_opts (NoTrim # os) seen_notrim seen_nodownload a =
     (if seen_nodownload then Inl (NotAllowedWith ''--notrim'' ''--nodownload'')
      else parse_opts os True seen_nodownload (a\<lparr>arg_trim := False\<rparr>))"
| "parse_opts (NoDownload # os) seen_notrim seen_nodownload a =
     (if seen_notrim then Inl (NotAllowedWith ''--nodownload'' ''--notrim'')
      else parse_opts os seen_notrim True (a\<lparr>arg_download := False\<rparr>))"
| "parse_opts (NoClear # os) seen_notrim seen_nodownload a =
     parse_opts os seen_notrim seen_nodownload (a\<lparr>arg_clear := False\<rparr>)"

definition parse_args :: "cli_opt list \<Rightarrow> parse_error + args" where
  "parse_args os = parse_opts os False False default_args"

definition parse_error_msg :: "parse_error \<Rightarrow> string" where
  "parse_error_msg e =
     (case e of NotAllowedWith x y \<Rightarrow> ''error: argument '' @ x @ '': not allowed with argument '' @ y)"

subsection \<open>The main block\<close>

definition cleared_msg :: string where
  "cleared_msg = ''Download list cleared''"

definition file_not_found_msg :: "path \<Rightarrow> string" where
  "file_not_found_msg p =
     ''FileNotFoundError: [Errno 2] No such file or directory: '' @ [CHR 0x27] @ p @ [CHR 0x27]"

definition interrupted_msg :: string where
  "interrupted_msg =
     CHR 0x0A # ''INTERRUPTED: Terminating. Some files may not be correctly removed.''"

text \<open>Lines 93 to 95.\<close>

definition clear_list :: "path \<Rightarrow> bool \<Rightarrow> unit prog" where
  "clear_list song_list quiet w =
     (let w1 = open_w_write_empty song_list w in
      (Inr (), if \<not> quiet then py_print cleared_msg w1 else w1))"

text \<open>The body of the \<^verbatim>\<open>try\<close> block, lines 88 to 97.\<close>

definition main_body :: "env \<Rightarrow> args \<Rightarrow> unit prog" where
  "main_body env a =
     bind_prog (check_dir env (arg_wd a) (arg_song_list a) (arg_download a)) (\<lambda>_.
     bind_prog
       (if arg_download a then
          bind_prog
            (download env (arg_song_list a) (arg_quiet a) (arg_force a) (arg_playlist a)) (\<lambda>_.
            if arg_clear a then clear_list (arg_song_list a) (arg_quiet a) else return_prog ())
        else return_prog ()) (\<lambda>_.
     if arg_trim a then trim_mp3s env (arg_quiet a) else return_prog ()))"

text \<open>
  The \<^verbatim>\<open>try\<close> statement and the end of the process: the exit status and the final world.
  \<^verbatim>\<open>exit(msg)\<close> raises \<^verbatim>\<open>SystemExit\<close>, which the handler does not catch: the message
  goes to standard error and the status is 1. \<^verbatim>\<open>KeyboardInterrupt\<close> is caught, the
  warning printed, and the script ends normally. \<^verbatim>\<open>FileNotFoundError\<close> is not caught
  either: the interpreter prints the traceback, of which the model keeps the last line,
  and the status is 1.
\<close>

definition main :: "env \<Rightarrow> args \<Rightarrow> world \<Rightarrow> int \<times> world" where
  "main env a w =
     (case main_body env a w of
        (Inr _, w') \<Rightarrow> (0, w')
      | (Inl KeyboardInterrupt, w') \<Rightarrow> (0, py_print interrupted_msg w')
      | (Inl (SystemExit msg), w') \<Rightarrow> (1, log_event (PrintErr msg) w')
      | (Inl (FileNotFoundError p), w') \<Rightarrow> (1, log_event (PrintErr (file_not_found_msg p)) w'))"

text \<open>The whole script: \<^verbatim>\<open>parser.parse_args()\<close> ends the process with status 2 on an
  error, before the \<^verbatim>\<open>try\<close> block is reached.\<close>

definition script :: "env \<Rightarrow> cli_opt list \<Rightarrow> world \<Rightarrow> int \<times> world" where
  "script env os w =
     (case parse_args os of
        Inl e \<Rightarrow> (2, log_event (PrintErr (parse_error_msg e)) w)
      | Inr a \<Rightarrow> main env a w)"


fun spawned :: "event list \<Rightarrow> string list list" where
  "spawned [] = []"
| "spawned (Spawn argv r # es) = argv # spawned es"
| "spawned (_ # es) = spawned es"

definition new_events :: "world \<Rightarrow> world \<Rightarrow> event list" where
  "new_events w w' = drop (length (trace w)) (trace w')"

text \<open>The directory the script works in, and the list file as the script finds it there.\<close>

definition run_dir :: "env \<Rightarrow> args \<Rightarrow> world \<Rightarrow> path" where
  "run_dir env a w = (if arg_wd a then cwd w else resolve (cwd w) (downloads_dir env))"

definition list_path :: "env \<Rightarrow> args \<Rightarrow> world \<Rightarrow> path" where
  "list_path env a w = resolve (run_dir env a w) (arg_song_list a)"

definition enter_dir :: "env \<Rightarrow> args \<Rightarrow> world \<Rightarrow> event list" where
  "enter_dir env a w = (if arg_wd a then [] else [Chdir (run_dir env a w)])"

subsection \<open>Notions used to state the properties\<close>

text \<open>The argument vector of the downloader for a run configuration (lines 35 to 43).\<close>

definition ytdl_argv :: "args \<Rightarrow> string list" where
  "ytdl_argv a =
     ''youtube-dl'' # dl_args (arg_song_list a) (arg_quiet a) (arg_force a) (arg_playlist a)"

text \<open>The two calls of the audio tool for every \<^verbatim>\<open>.mp3\<close> name of a listing, in order.\<close>

definition sox_calls :: "path \<Rightarrow> string list \<Rightarrow> string list list" where
  "sox_calls t ns =
     concat (map (\<lambda>f. [sox_to_tmp f t, sox_from_tmp f t]) (filter (\<lambda>f. endswith f ''.mp3'') ns))"

text \<open>The world in which the loop of \<^verbatim>\<open>trim_mp3s\<close> starts, the temporary file made and the
  directory listed, and the names the loop goes through.\<close>

definition trim_start :: "env \<Rightarrow> world \<Rightarrow> world" where
  "trim_start env w = snd (os_listdir env (snd (tmp_enter env w)))"

definition trim_names :: "env \<Rightarrow> world \<Rightarrow> string list" where
  "trim_names env w = listdir env (cwd w) ((files w)(tmp_name env \<mapsto> []))"

text \<open>What the script still says when the \<^verbatim>\<open>try\<close> block is left.\<close>

definition last_words :: "exn + unit \<Rightarrow> event list" where
  "last_words r =
     (case r of
        Inl KeyboardInterrupt \<Rightarrow> [Print interrupted_msg]
      | Inl (SystemExit m) \<Rightarrow> [PrintErr m]
      | Inl (FileNotFoundError p) \<Rightarrow> [PrintErr (file_not_found_msg p)]
      | Inr _ \<Rightarrow> [])"

text \<open>A step only adds to the trace.\<close>

definition grows :: "world \<Rightarrow> world \<Rightarrow> bool" where
  "grows w w' = (\<exists>es. trace w' = trace w @ es)"


definition no_interrupt :: "env \<Rightarrow> bool" where
  "no_interrupt env = (\<forall>argv d fs. fst (run_tool env argv d fs) \<noteq> Interrupted)"


text \<open>The kinds of events: what the loop of the trimming logs, and what the trimming as a
  whole logs.\<close>

fun loop_event :: "event \<Rightarrow> bool" where
  "loop_event (Spawn argv r) = (\<exists>f t. argv = sox_to_tmp f t \<or> argv = sox_from_tmp f t)"
| "loop_event (Print s) = (\<exists>f. s = trim_failed_msg f \<or> s = trimmed_msg f)"
| "loop_event _ = False"




fun here :: "path \<Rightarrow> path \<Rightarrow> event \<Rightarrow> bool" where
  "here d sl (Chdir d') = False"
| "here d sl (IsFile p) = (p = resolve d sl)"
| "here d sl (Truncate p) = (p = resolve d sl)"
| "here d sl (Listdir d') = (d' = d)"
| "here d sl _ = True"

text \<open>A step is steady for an invariant of the world and a kind of events when it keeps
  the invariant and only adds events of that kind to the trace.\<close>

definition steady :: "(world \<Rightarrow> bool) \<Rightarrow> (event \<Rightarrow> bool) \<Rightarrow> 'a prog \<Rightarrow> bool" where
  "steady I P m =
     (\<forall>w. I w \<longrightarrow>
        I (snd (m w)) \<and> grows w (snd (m w)) \<and> list_all P (new_events w (snd (m w))))"

subsection \<open>Concrete environments\<close>



text \<open>
  A small stand-in for the two programs. The downloader writes one track \<^verbatim>\<open>a.mp3\<close> into
  the directory it runs in. The audio tool copies its input to its output; it fails, and
  writes nothing, when the input is missing, empty or not audio, or when the output is not
  an \<^verbatim>\<open>.mp3\<close> file. The directory holds at most the three names listed. The Python
  is one that lets the error of the removal of the temporary file out.
\<close>

definition demo_audio :: "string \<Rightarrow> bool" where
  "demo_audio c = (c \<noteq> [] \<and> c \<noteq> ''junk'')"

definition demo_sox :: "string list \<Rightarrow> path \<Rightarrow> fs \<Rightarrow> returned \<times> fs" where
  "demo_sox args d fs =
     (case args of
        i # out # effects \<Rightarrow>
          (case fs (resolve d i) of
             None \<Rightarrow> (Returncode 2, fs)
           | Some c \<Rightarrow>
               if demo_audio c \<and> endswith (resolve d out) ''.mp3''
               then (Returncode 0, fs(resolve d out \<mapsto> c))
               else (Returncode 2, fs))
      | _ \<Rightarrow> (Returncode 1, fs))"

definition demo_tool :: "string list \<Rightarrow> path \<Rightarrow> fs \<Rightarrow> returned \<times> fs" where
  "demo_tool argv d fs =
     (case argv of
        [] \<Rightarrow> (Returncode 127, fs)
      | prog # args \<Rightarrow>
          if prog = ''youtube-dl'' then (Returncode 0, fs(resolve d ''a.mp3'' \<mapsto> ''la la''))
          else if prog = ''sox'' then demo_sox args d fs
          else (Returncode 127, fs))"

definition demo_listdir :: "path \<Rightarrow> fs \<Rightarrow> string list" where
  "demo_listdir d fs =
     filter (\<lambda>n. fs (resolve d n) \<noteq> None) [''a.mp3'', ''song-list.txt'', ''b.mp3'']"

definition demo_env :: env where
  "demo_env =
     \<lparr>downloads_dir = ''/home/u/Downloads'', run_tool = demo_tool,
      listdir = demo_listdir, tmp_name = ''/tmp/tmp0.mp3'', unlink_raises = True\<rparr>"

text \<open>The same, with a downloader that fails.\<close>

definition offline_env :: env where
  "offline_env =
     demo_env\<lparr>run_tool := (\<lambda>argv d fs.
        if argv \<noteq> [] \<and> hd argv = ''youtube-dl'' then (Returncode 1, fs) else demo_tool argv d fs)\<rparr>"

text \<open>A world with the default list in \<^verbatim>\<open>~/Downloads\<close>.\<close>

definition listed_world :: world where
  "listed_world =
     \<lparr>cwd = ''/home/u'',
      files = [''/home/u/Downloads/song-list.txt'' \<mapsto> ''https://example.org/a''],
      trace = []\<rparr>"

text \<open>The same world after a download: the track is there, the list still full.\<close>

definition stocked_world :: world where
  "stocked_world =
     \<lparr>cwd = ''/home/u'',
      files = [''/home/u/Downloads/song-list.txt'' \<mapsto> ''https://example.org/a'',
               ''/home/u/Downloads/a.mp3'' \<mapsto> ''la la''],
      trace = []\<rparr>"

text \<open>A download directory with a good track, the list, and a file \<^verbatim>\<open>b.mp3\<close> that is not
  audio. With the temporary file holding what the trimming of a previous track left there,
  it is the world in which the loop comes to \<^verbatim>\<open>b.mp3\<close>.\<close>

definition mixed_world :: world where
  "mixed_world =
     \<lparr>cwd = ''/home/u/Downloads'',
      files = [''/home/u/Downloads/a.mp3'' \<mapsto> ''la la'',
               ''/home/u/Downloads/song-list.txt'' \<mapsto> ''https://example.org/a'',
               ''/home/u/Downloads/b.mp3'' \<mapsto> ''junk''],
      trace = []\<rparr>"

definition stale_world :: world where
  "stale_world =
     mixed_world\<lparr>files := (files mixed_world)(''/tmp/tmp0.mp3'' \<mapsto> ''la la'')\<rparr>"

text \<open>A world in which the list of the songs is the file \<^verbatim>\<open>b.mp3\<close> of \<^verbatim>\<open>~/Downloads\<close>.\<close>

definition mp3_list_world :: world where
  "mp3_list_world =
     \<lparr>cwd = ''/home/u'',
      files = [''/home/u/Downloads/b.mp3'' \<mapsto> ''https://example.org/a''],
      trace = []\<rparr>"

text \<open>
  An audio tool that, like the stand-in, copies its input to its output, and that removes
  the output it was writing when it fails part of the way through, which it does on the
  input that is not audio. On a missing or empty input it fails before it has an output.
\<close>

definition fragile_sox :: "string list \<Rightarrow> path \<Rightarrow> fs \<Rightarrow> returned \<times> fs" where
  "fragile_sox args d fs =
     (case args of
        i # out # effects \<Rightarrow>
          (case fs (resolve d i) of
             None \<Rightarrow> (Returncode 2, fs)
           | Some c \<Rightarrow>
               if c = ''junk'' then (Returncode 2, fs(resolve d out := None))
               else if demo_audio c \<and> endswith (resolve d out) ''.mp3''
               then (Returncode 0, fs(resolve d out \<mapsto> c))
               else (Returncode 2, fs))
      | _ \<Rightarrow> (Returncode 1, fs))"

definition fragile_env :: env where
  "fragile_env =
     demo_env\<lparr>run_tool := (\<lambda>argv d fs.
        if argv \<noteq> [] \<and> hd argv = ''sox'' then fragile_sox (tl argv) d fs
        else demo_tool argv d fs)\<rparr>"

text \<open>The stand-in environment, with the interrupt arriving during one given call, which
  has removed the temporary file by then.\<close>

definition interrupt_at :: "string list \<Rightarrow> env" where
  "interrupt_at argv0 =
     demo_env\<lparr>run_tool := (\<lambda>argv d fs.
        if argv = argv0 then (Interrupted, fs(''/tmp/tmp0.mp3'' := None))
        else demo_tool argv d fs)\<rparr>"

section \<open>Properties\<close>

lemmas prims = log_event_def os_chdir_def os_path_isfile_def open_w_write_empty_def
  os_listdir_def py_print_def subprocess_run_def tmp_enter_def tmp_exit_def

lemmas script_defs = script_def main_def main_body_def bind_prog_def return_prog_def
  check_dir_def download_def clear_list_def trim_mp3s_def trim_file_def report_def
  parse_args_def default_args_def resolve_def endswith_def dl_args_def ytdl_argv_def
  sox_to_tmp_def sox_from_tmp_def run_dir_def list_path_def enter_dir_def

lemmas demo_defs = demo_env_def offline_env_def demo_tool_def demo_sox_def demo_listdir_def
  demo_audio_def listed_world_def stocked_world_def mixed_world_def stale_world_def
  mp3_list_world_def fragile_env_def fragile_sox_def interrupt_at_def

lemmas trim_defs = trim_mp3s_def trim_file_def report_def trim_start_def
  sox_to_tmp_def sox_from_tmp_def trim_failed_msg_def trimmed_msg_def endswith_def resolve_def

subsection \<open>The trace and the steps\<close>

lemma grows_refl: "grows w w"
  by (simp add: grows_def)

lemma grows_trans: "grows w w1 \<Longrightarrow> grows w1 w2 \<Longrightarrow> grows w w2"
  by (auto simp: grows_def)

lemma new_events_append:
  "grows w w1 \<Longrightarrow> grows w1 w2 \<Longrightarrow> new_events w w2 = new_events w w1 @ new_events w1 w2"
  by (auto simp: grows_def new_events_def)

lemma new_events_self: "new_events w w = []"
  by (simp add: new_events_def)

lemma new_events_eq: "trace w' = trace w @ es \<Longrightarrow> new_events w w' = es"
  by (simp add: new_events_def)

lemma trace_new_events: "grows w w' \<Longrightarrow> trace w' = trace w @ new_events w w'"
  by (auto simp: grows_def new_events_def)

text \<open>One iteration of the loop.\<close>

lemma trim_file_cwd: "cwd (snd (trim_file env q t f w)) = cwd w"
  by (auto simp: trim_file_def subprocess_run_def log_event_def report_def py_print_def
      split: prod.splits returned.splits)

lemma trim_file_grows: "grows w (snd (trim_file env q t f w))"
  by (auto simp: trim_file_def subprocess_run_def log_event_def report_def py_print_def
      grows_def split: prod.splits returned.splits)


lemma trim_file_events: "list_all loop_event (new_events w (snd (trim_file env q t f w)))"
  by (auto simp: trim_file_def subprocess_run_def log_event_def report_def py_print_def
      new_events_def split: prod.splits returned.splits)

lemma trim_file_returns:
  "no_interrupt env \<Longrightarrow> fst (trim_file env q t f w) = Inr ()"
  unfolding no_interrupt_def
  by (auto simp: trim_file_def subprocess_run_def split: prod.splits returned.splits)
     (metis fst_conv)+

lemma trim_file_spawned:
  "no_interrupt env \<Longrightarrow>
   spawned (new_events w (snd (trim_file env q t f w))) =
     (if endswith f ''.mp3'' then [sox_to_tmp f t, sox_from_tmp f t] else [])"
  unfolding no_interrupt_def
  by (auto simp: trim_file_def subprocess_run_def log_event_def report_def py_print_def
      new_events_def split: prod.splits returned.splits) (metis fst_conv)+

lemma trim_file_returned:
  assumes "endswith f ''.mp3''"
    and "run_tool env (sox_to_tmp f t) (cwd w) (files w) = (Returncode ret1, fs1)"
    and "run_tool env (sox_from_tmp f t) (cwd w) fs1 = (Returncode ret2, fs2)"
  shows "trim_file env quiet t f w =
           (Inr (),
            w\<lparr>files := fs2,
              trace := trace w @
                [Spawn (sox_to_tmp f t) (Returncode ret1),
                 Spawn (sox_from_tmp f t) (Returncode ret2)] @
                (if ret1 \<noteq> 0 \<or> ret2 \<noteq> 0 then [Print (trim_failed_msg f)]
                 else if \<not> quiet then [Print (trimmed_msg f)] else [])\<rparr>)"
  using assms by (simp add: trim_file_def prims report_def)

text \<open>The loop.\<close>

lemma trim_loop_cwd: "cwd (snd (trim_loop env q t ns w)) = cwd w"
proof (induction ns arbitrary: w)
  case Nil
  show ?case by simp
next
  case (Cons f fs)
  obtain r w' where step: "trim_file env q t f w = (r, w')"
    by (cases "trim_file env q t f w")
  have "cwd w' = cwd w"
    using trim_file_cwd [of env q t f w] step by simp
  with Cons [of w'] step show ?case
    by (cases r) simp_all
qed

lemma trim_loop_grows: "grows w (snd (trim_loop env q t ns w))"
proof (induction ns arbitrary: w)
  case Nil
  show ?case by (simp add: grows_refl)
next
  case (Cons f fs)
  obtain r w' where step: "trim_file env q t f w = (r, w')"
    by (cases "trim_file env q t f w")
  have "grows w w'"
    using trim_file_grows [of w env q t f] step by simp
  with Cons [of w'] step show ?case
    by (cases r) (auto intro: grows_trans)
qed




lemma trim_loop_events: "list_all loop_event (new_events w (snd (trim_loop env q t ns w)))"
proof (induction ns arbitrary: w)
  case Nil
  show ?case by (simp add: new_events_self)
next
  case (Cons f fs)
  obtain r w' where step: "trim_file env q t f w = (r, w')"
    by (cases "trim_file env q t f w")
  have g: "grows w w'"
    using trim_file_grows [of w env q t f] step by simp
  have e: "list_all loop_event (new_events w w')"
    using trim_file_events [of w env q t f] step by simp
  show ?case
  proof (cases r)
    case (Inl x)
    with step e show ?thesis by simp
  next
    case (Inr u)
    have "new_events w (snd (trim_loop env q t fs w')) =
            new_events w w' @ new_events w' (snd (trim_loop env q t fs w'))"
      by (rule new_events_append [OF g trim_loop_grows])
    with Inr step e Cons [of w'] show ?thesis by simp
  qed
qed

lemma spawned_append: "spawned (xs @ ys) = spawned xs @ spawned ys"
  by (induction xs rule: spawned.induct) simp_all


lemma trim_loop_spawned:
  assumes "no_interrupt env"
  shows "spawned (new_events w (snd (trim_loop env q t ns w))) = sox_calls t ns"
proof (induction ns arbitrary: w)
  case Nil
  show ?case by (simp add: new_events_self sox_calls_def)
next
  case (Cons f fs)
  obtain r w' where step: "trim_file env q t f w = (r, w')"
    by (cases "trim_file env q t f w")
  have r: "r = Inr ()"
    using trim_file_returns [OF assms, of q t f w] step by simp
  have g: "grows w w'"
    using trim_file_grows [of w env q t f] step by simp
  have s: "spawned (new_events w w') =
             (if endswith f ''.mp3'' then [sox_to_tmp f t, sox_from_tmp f t] else [])"
    using trim_file_spawned [OF assms, of w q t f] step by simp
  have split: "new_events w (snd (trim_loop env q t fs w')) =
          new_events w w' @ new_events w' (snd (trim_loop env q t fs w'))"
    by (rule new_events_append [OF g trim_loop_grows])
  show ?case
    using r step split s Cons [of w'] by (simp add: spawned_append sox_calls_def)
qed

text \<open>The whole trimming step: the temporary file, the listing, the loop, the removal.\<close>

lemma tmp_exit_simps:
  "cwd (snd (tmp_exit env t r w)) = cwd w"
  "files (snd (tmp_exit env t r w)) = (files w)(t := None)"
  "trace (snd (tmp_exit env t r w)) = trace w @ [Unlink t]"
  "fst (tmp_exit env t r w) =
     (if files w t = None \<and> unlink_raises env then Inl (FileNotFoundError t) else r)"
  by (auto simp: tmp_exit_def log_event_def)

lemma trim_mp3s_unfold:
  "trim_mp3s env q w =
     tmp_exit env (tmp_name env)
       (fst (trim_loop env q (tmp_name env) (trim_names env w) (trim_start env w)))
       (snd (trim_loop env q (tmp_name env) (trim_names env w) (trim_start env w)))"
  by (simp add: trim_mp3s_def trim_start_def trim_names_def tmp_enter_def os_listdir_def
      log_event_def split: prod.splits)

lemma trim_start_simps:
  "cwd (trim_start env w) = cwd w"
  "files (trim_start env w) = (files w)(tmp_name env \<mapsto> [])"
  "trace (trim_start env w) = trace w @ [MkTemp (tmp_name env), Listdir (cwd w)]"
  by (simp_all add: trim_start_def tmp_enter_def os_listdir_def log_event_def)

lemma trim_start_grows: "grows w (trim_start env w)"
  by (simp add: grows_def trim_start_simps)

lemma tmp_exit_grows: "grows w (snd (tmp_exit env t r w))"
  by (simp add: grows_def tmp_exit_simps)

lemma trim_mp3s_new_events:
  "new_events w (snd (trim_mp3s env q w)) =
     [MkTemp (tmp_name env), Listdir (cwd w)]
     @ new_events (trim_start env w)
         (snd (trim_loop env q (tmp_name env) (trim_names env w) (trim_start env w)))
     @ [Unlink (tmp_name env)]"
proof -
  let ?w1 = "trim_start env w"
  let ?r = "fst (trim_loop env q (tmp_name env) (trim_names env w) ?w1)"
  let ?w2 = "snd (trim_loop env q (tmp_name env) (trim_names env w) ?w1)"
  have g: "grows ?w1 ?w2" by (rule trim_loop_grows)
  have "trace (snd (tmp_exit env (tmp_name env) ?r ?w2)) =
          trace w @ [MkTemp (tmp_name env), Listdir (cwd w)] @ new_events ?w1 ?w2
            @ [Unlink (tmp_name env)]"
    using trace_new_events [OF g] by (simp add: tmp_exit_simps trim_start_simps)
  then show ?thesis
    by (simp add: trim_mp3s_unfold new_events_def)
qed

lemma trim_mp3s_grows: "grows w (snd (trim_mp3s env q w))"
  unfolding trim_mp3s_unfold
  by (rule grows_trans [OF grows_trans [OF trim_start_grows trim_loop_grows] tmp_exit_grows])

lemma trim_mp3s_cwd: "cwd (snd (trim_mp3s env q w)) = cwd w"
  by (simp add: trim_mp3s_unfold tmp_exit_simps trim_loop_cwd trim_start_simps)





lemma trim_mp3s_spawned:
  "no_interrupt env \<Longrightarrow>
   spawned (new_events w (snd (trim_mp3s env q w))) = sox_calls (tmp_name env) (trim_names env w)"
  by (simp add: trim_mp3s_new_events spawned_append trim_loop_spawned)






lemma clear_list_result:
  "clear_list sl q w =
     (Inr (), w\<lparr>files := (files w)(resolve (cwd w) sl \<mapsto> []),
                 trace := trace w @ Truncate (resolve (cwd w) sl) # (if q then [] else [Print cleared_msg])\<rparr>)"
  by (simp add: clear_list_def prims)



lemma main_cwd: "cwd (snd (main env a w)) = cwd (snd (main_body env a w))"
  by (simp add: main_def prims split: prod.splits sum.splits exn.splits)

lemma main_trace:
  "trace (snd (main env a w)) =
     trace (snd (main_body env a w)) @ last_words (fst (main_body env a w))"
  by (simp add: main_def prims last_words_def split: prod.splits sum.splits exn.splits)




text \<open>Steady steps compose.\<close>

lemma steadyI:
  assumes "\<And>w. I w \<Longrightarrow> I (snd (m w))" and "\<And>w. I w \<Longrightarrow> grows w (snd (m w))"
    and "\<And>w. I w \<Longrightarrow> list_all P (new_events w (snd (m w)))"
  shows "steady I P m"
  using assms by (simp add: steady_def)

lemma steadyD:
  assumes "steady I P m" and "I w"
  shows "I (snd (m w))" and "grows w (snd (m w))" and "list_all P (new_events w (snd (m w)))"
  using assms by (simp_all add: steady_def)

lemma steady_return: "steady I P (return_prog x)"
  by (simp add: steady_def return_prog_def grows_refl new_events_self)

lemma steady_bind:
  assumes m: "steady I P m" and f: "\<And>x. steady I P (f x)"
  shows "steady I P (bind_prog m f)"
proof (rule steadyI)
  fix w :: world
  assume w: "I w"
  obtain r w1 where step: "m w = (r, w1)" by (cases "m w")
  have m1: "I w1" "grows w w1" "list_all P (new_events w w1)"
    using steadyD [OF m w] step by simp_all
  show "I (snd (bind_prog m f w))"
    using step m1 steadyD(1) [OF f m1(1)] by (cases r) (auto simp: bind_prog_def)
  show "grows w (snd (bind_prog m f w))"
    using step m1 steadyD(2) [OF f m1(1)]
    by (cases r) (auto simp: bind_prog_def intro: grows_trans)
  show "list_all P (new_events w (snd (bind_prog m f w)))"
  proof (cases r)
    case (Inl e)
    with step m1 show ?thesis by (simp add: bind_prog_def)
  next
    case (Inr x)
    have fx: "grows w1 (snd (f x w1))" "list_all P (new_events w1 (snd (f x w1)))"
      using steadyD [OF f m1(1)] by simp_all
    show ?thesis
      using Inr step m1 fx new_events_append [OF m1(2) fx(1)] by (simp add: bind_prog_def)
  qed
qed


lemma demo_no_interrupt: "no_interrupt demo_env"
  by (auto simp: no_interrupt_def demo_env_def demo_tool_def demo_sox_def
      split: list.splits option.splits)

text \<open>The parser.\<close>

lemma parse_opts_conflict:
  "(seen_notrim \<and> NoDownload \<in> set os) \<or> (seen_nodownload \<and> NoTrim \<in> set os) \<or>
   (NoTrim \<in> set os \<and> NoDownload \<in> set os) \<Longrightarrow>
   \<exists>x y. parse_opts os seen_notrim seen_nodownload a = Inl (NotAllowedWith x y)"
  by (induction os seen_notrim seen_nodownload a rule: parse_opts.induct) auto

text \<open>Where the steps look.\<close>

lemma loop_event_here: "loop_event e \<Longrightarrow> here d sl e"
  by (cases e) simp_all

lemma check_dir_here:
  "steady (\<lambda>v. cwd v = d) (here d sl) (check_dir env True sl file_needed)"
  by (rule steadyI) (auto simp: check_dir_def prims grows_def new_events_def)

lemma download_here: "steady (\<lambda>v. cwd v = d) (here d sl) (download env sl' q f pl)"
proof (rule steadyI)
  fix w :: world
  assume w: "cwd w = d"
  obtain r fs' where run: "run_tool env (''youtube-dl'' # dl_args sl' q f pl) (cwd w) (files w) = (r, fs')"
    by (cases "run_tool env (''youtube-dl'' # dl_args sl' q f pl) (cwd w) (files w)")
  show "cwd (snd (download env sl' q f pl w)) = d"
    using run w by (cases r) (simp_all add: download_def prims)
  show "grows w (snd (download env sl' q f pl w))"
    using run by (cases r) (simp_all add: download_def prims grows_def)
  show "list_all (here d sl) (new_events w (snd (download env sl' q f pl w)))"
    using run by (cases r) (simp_all add: download_def prims new_events_def)
qed

lemma clear_list_here: "steady (\<lambda>v. cwd v = d) (here d sl) (clear_list sl q)"
  by (rule steadyI) (simp_all add: clear_list_result grows_def new_events_def)

lemma trim_mp3s_here: "steady (\<lambda>v. cwd v = d) (here d sl) (trim_mp3s env q)"
proof (rule steadyI)
  fix w :: world
  assume w: "cwd w = d"
  then show "cwd (snd (trim_mp3s env q w)) = d"
    by (simp add: trim_mp3s_cwd)
  show "grows w (snd (trim_mp3s env q w))"
    by (rule trim_mp3s_grows)
  show "list_all (here d sl) (new_events w (snd (trim_mp3s env q w)))"
    using trim_loop_events [of "trim_start env w" env q "tmp_name env" "trim_names env w"] w
    by (auto simp: trim_mp3s_new_events list_all_iff intro: loop_event_here)
qed

lemma main_body_here:
  assumes "arg_wd a"
  shows "steady (\<lambda>v. cwd v = d) (here d (arg_song_list a)) (main_body env a)"
  unfolding main_body_def using assms
  by (intro steady_bind)
     (simp_all add: steady_bind check_dir_here download_here clear_list_here trim_mp3s_here
      steady_return)

lemma last_words_here: "list_all (here d sl) (last_words r)"
  by (simp add: last_words_def split: sum.splits exn.splits)

lemma bind_prog_cong_world:
  "m w = m' w' \<Longrightarrow> (\<And>x. f x = f' x) \<Longrightarrow> bind_prog m f w = bind_prog m' f' w'"
  by (simp add: bind_prog_def split: prod.splits sum.splits)

lemma check_dir_wd:
  "\<not> wd \<Longrightarrow>
   check_dir env wd sl file_needed w = check_dir env True sl file_needed (os_chdir (downloads_dir env) w)"
  by (simp add: check_dir_def)

lemma main_body_wd:
  assumes "\<not> arg_wd a"
  shows "main_body env a w =
           main_body env (a\<lparr>arg_wd := True\<rparr>) (os_chdir (downloads_dir env) w)"
  unfolding main_body_def
  by (rule bind_prog_cong_world) (simp_all add: check_dir_wd [OF assms])












subsection \<open>The missing list file\<close>



subsection \<open>A failed download\<close>



subsection \<open>Clearing the list\<close>




subsection \<open>The list file is left alone\<close>




subsection \<open>A file whose trimming failed\<close>

text \<open>
  C5, as the specification has it: a file for which one of the two calls fails is named in
  a warning and is left byte for byte as the previous step produced it. The warning is
  there, but the second call, from the temporary file back over the file, is started
  whatever the first returned. In the stand-in environment the first call fails on
  \<^verbatim>\<open>b.mp3\<close> and leaves the temporary file as the trimming of \<^verbatim>\<open>a.mp3\<close> left it; the second
  call then succeeds and writes that content over \<^verbatim>\<open>b.mp3\<close>.
\<close>

theorem failed_trim_overwrites_counterexample:
  "Spawn (sox_to_tmp ''b.mp3'' ''/tmp/tmp0.mp3'') (Returncode 2)
     \<in> set (trace (snd (trim_mp3s demo_env False mixed_world))) \<and>
   Print ''WARNING: Failed to trim silence from b.mp3''
     \<in> set (trace (snd (trim_mp3s demo_env False mixed_world))) \<and>
   files mixed_world ''/home/u/Downloads/b.mp3'' = Some ''junk'' \<and>
   files (snd (trim_mp3s demo_env False mixed_world)) ''/home/u/Downloads/b.mp3'' = Some ''la la'' \<and>
   files (snd (trim_mp3s demo_env False mixed_world)) ''/home/u/Downloads/b.mp3'' \<noteq>
     files mixed_world ''/home/u/Downloads/b.mp3''"
  by (simp add: trim_defs prims demo_defs)

text \<open>
  C5, amended. A file for which one of the two calls returns a code other than zero is
  named in the warning \<^verbatim>\<open>WARNING: Failed to trim silence from <file>\<close>. Both calls are
  made, the second also when the first failed, and the script itself writes to no file:
  after the iteration the files are as the two calls of the audio tool left them.
\<close>

theorem failed_trim_is_reported:
  assumes "endswith f ''.mp3''"
    and "run_tool env (sox_to_tmp f t) (cwd w) (files w) = (Returncode ret1, fs1)"
    and "run_tool env (sox_from_tmp f t) (cwd w) fs1 = (Returncode ret2, fs2)"
    and "ret1 \<noteq> 0 \<or> ret2 \<noteq> 0"
  shows "trim_file env quiet t f w =
           (Inr (),
            w\<lparr>files := fs2,
              trace := trace w @
                [Spawn (sox_to_tmp f t) (Returncode ret1),
                 Spawn (sox_from_tmp f t) (Returncode ret2),
                 Print (''WARNING: Failed to trim silence from '' @ f)]\<rparr>)"
  using trim_file_returned [OF assms(1-3), of quiet] assms(4)
  by (auto simp: trim_failed_msg_def)


text \<open>The loop at \<^verbatim>\<open>b.mp3\<close>, after \<^verbatim>\<open>a.mp3\<close> went through the temporary file.\<close>

theorem failed_trim_is_reported_witness:
  "endswith ''b.mp3'' ''.mp3'' \<and>
   run_tool demo_env (sox_to_tmp ''b.mp3'' ''/tmp/tmp0.mp3'') (cwd stale_world) (files stale_world) =
     (Returncode 2, files stale_world) \<and>
   run_tool demo_env (sox_from_tmp ''b.mp3'' ''/tmp/tmp0.mp3'') (cwd stale_world) (files stale_world) =
     (Returncode 0, (files stale_world)(''/home/u/Downloads/b.mp3'' \<mapsto> ''la la'')) \<and>
   trim_file demo_env False ''/tmp/tmp0.mp3'' ''b.mp3'' stale_world =
     (Inr (),
      stale_world\<lparr>files := (files stale_world)(''/home/u/Downloads/b.mp3'' \<mapsto> ''la la''),
        trace := trace stale_world @
          [Spawn (sox_to_tmp ''b.mp3'' ''/tmp/tmp0.mp3'') (Returncode 2),
           Spawn (sox_from_tmp ''b.mp3'' ''/tmp/tmp0.mp3'') (Returncode 0),
           Print ''WARNING: Failed to trim silence from b.mp3'']\<rparr>)"
proof -
  have e: "endswith ''b.mp3'' ''.mp3''"
    by (simp add: endswith_def)
  have r1: "run_tool demo_env (sox_to_tmp ''b.mp3'' ''/tmp/tmp0.mp3'') (cwd stale_world)
              (files stale_world) = (Returncode 2, files stale_world)"
    by (simp add: demo_defs sox_to_tmp_def resolve_def)
  have r2: "run_tool demo_env (sox_from_tmp ''b.mp3'' ''/tmp/tmp0.mp3'') (cwd stale_world)
              (files stale_world) =
            (Returncode 0, (files stale_world)(''/home/u/Downloads/b.mp3'' \<mapsto> ''la la''))"
    by (simp add: demo_defs sox_from_tmp_def resolve_def endswith_def)
  show ?thesis
    using failed_trim_is_reported [OF e r1 r2, of False] e r1 r2 by simp
qed

subsection \<open>What the trimming starts\<close>

text \<open>
  C6. The trimming lists the working directory once, after it has made the temporary file.
  For every name of the listing that ends with \<^verbatim>\<open>.mp3\<close>, in the order of the listing, and
  for no other name, it starts the audio tool twice: first from the file to the temporary
  file with the effects \<^verbatim>\<open>reverse silence 1 0.1 0.1% reverse\<close>, then from the temporary file
  back over the file with \<^verbatim>\<open>silence 1 0.1 0.1%\<close>. These are all the programs it starts,
  in a run where the interrupt does not arrive.
\<close>

theorem two_sox_calls_per_mp3:
  assumes "no_interrupt env"
  shows "spawned (new_events w (snd (trim_mp3s env quiet w))) =
           concat (map (\<lambda>f. [[''sox'', f, tmp_name env, ''reverse'', ''silence'', ''1'', ''0.1'',
                                 ''0.1%'', ''reverse''],
                               [''sox'', tmp_name env, f, ''silence'', ''1'', ''0.1'', ''0.1%'']])
                       (filter (\<lambda>f. endswith f ''.mp3'')
                          (listdir env (cwd w) ((files w)(tmp_name env \<mapsto> [])))))"
  using trim_mp3s_spawned [OF assms, of w quiet]
  by (simp add: sox_calls_def sox_to_tmp_def sox_from_tmp_def trim_names_def)

text \<open>Two tracks and the list in the directory: four calls, none for the list.\<close>

theorem two_sox_calls_per_mp3_witness:
  "no_interrupt demo_env \<and>
   listdir demo_env (cwd mixed_world) ((files mixed_world)(tmp_name demo_env \<mapsto> [])) =
     [''a.mp3'', ''song-list.txt'', ''b.mp3''] \<and>
   spawned (new_events mixed_world (snd (trim_mp3s demo_env False mixed_world))) =
     [[''sox'', ''a.mp3'', ''/tmp/tmp0.mp3'', ''reverse'', ''silence'', ''1'', ''0.1'', ''0.1%'', ''reverse''],
      [''sox'', ''/tmp/tmp0.mp3'', ''a.mp3'', ''silence'', ''1'', ''0.1'', ''0.1%''],
      [''sox'', ''b.mp3'', ''/tmp/tmp0.mp3'', ''reverse'', ''silence'', ''1'', ''0.1'', ''0.1%'', ''reverse''],
      [''sox'', ''/tmp/tmp0.mp3'', ''b.mp3'', ''silence'', ''1'', ''0.1'', ''0.1%'']]"
proof -
  have l: "listdir demo_env (cwd mixed_world) ((files mixed_world)(tmp_name demo_env \<mapsto> [])) =
     [''a.mp3'', ''song-list.txt'', ''b.mp3'']"
    by (simp add: demo_env_def demo_listdir_def mixed_world_def resolve_def)
  show ?thesis
    using two_sox_calls_per_mp3 [OF demo_no_interrupt, of mixed_world False] demo_no_interrupt l
    by (simp add: endswith_def demo_env_def)
qed

subsection \<open>Reporting per file\<close>

text \<open>
  C7. A file for which a call of the audio tool fails is to be named in a warning, and the
  failure is to abort neither the loop nor the script. The loop does go on (lines 58 and
  59 print and fall through to the next name), but the script does not always survive.
  Here the audio tool fails part of the way through \<^verbatim>\<open>b.mp3\<close>, the last entry of the
  directory, and removes the output it was writing, the temporary file; its second call
  fails for want of its input. The warning is printed; then the \<^verbatim>\<open>with\<close> block is left,
  the removal of the temporary file raises \<^verbatim>\<open>FileNotFoundError\<close>, which nothing catches,
  and the script ends with a traceback and status 1.
\<close>

theorem trim_failure_ends_script:
  "parse_args [NoDownload, Wd] = Inr (default_args\<lparr>arg_download := False, arg_wd := True\<rparr>) \<and>
   fst (script fragile_env [NoDownload, Wd] mixed_world) = 1 \<and>
   new_events mixed_world (snd (script fragile_env [NoDownload, Wd] mixed_world)) =
     [MkTemp ''/tmp/tmp0.mp3'', Listdir ''/home/u/Downloads'',
      Spawn (sox_to_tmp ''a.mp3'' ''/tmp/tmp0.mp3'') (Returncode 0),
      Spawn (sox_from_tmp ''a.mp3'' ''/tmp/tmp0.mp3'') (Returncode 0),
      Print ''Silence trimmed from a.mp3'',
      Spawn (sox_to_tmp ''b.mp3'' ''/tmp/tmp0.mp3'') (Returncode 2),
      Spawn (sox_from_tmp ''b.mp3'' ''/tmp/tmp0.mp3'') (Returncode 2),
      Print ''WARNING: Failed to trim silence from b.mp3'',
      Unlink ''/tmp/tmp0.mp3'',
      PrintErr (file_not_found_msg ''/tmp/tmp0.mp3'')]"
  by (simp add: script_defs prims demo_defs new_events_def trim_failed_msg_def trimmed_msg_def)

subsection \<open>\<^verbatim>\<open>--notrim\<close> with \<^verbatim>\<open>--nodownload\<close>\<close>

text \<open>
  C8, as the specification has it: the parser accepts \<^verbatim>\<open>--nodownload --notrim\<close>, and the
  run does nothing. The two options are the members of a mutually exclusive group (lines
  77 to 81): the parser refuses the second of them, and the script ends with status 2.
\<close>

theorem notrim_nodownload_accepted_counterexample:
  "parse_args [NoDownload, NoTrim] = Inl (NotAllowedWith ''--notrim'' ''--nodownload'') \<and>
   script demo_env [NoDownload, NoTrim] stocked_world =
     (2, stocked_world\<lparr>trace :=
           [PrintErr ''error: argument --notrim: not allowed with argument --nodownload'']\<rparr>)"
  by (simp add: parse_args_def script_def parse_error_msg_def stocked_world_def log_event_def)

text \<open>
  C8, amended. When both \<^verbatim>\<open>--notrim\<close> and \<^verbatim>\<open>--nodownload\<close> are given, in either order and
  with any other options, the parser rejects the command line: the script ends with status
  2 and the error \<^verbatim>\<open>argument X: not allowed with argument Y\<close>, and no step is run: no
  change of directory, no check of the list, no external program, no file written.
\<close>

theorem notrim_nodownload_rejected:
  assumes "NoTrim \<in> set os" and "NoDownload \<in> set os"
  shows "\<exists>x y. parse_args os = Inl (NotAllowedWith x y) \<and>
           script env os w =
             (2, w\<lparr>trace := trace w @
                   [PrintErr (''error: argument '' @ x @ '': not allowed with argument '' @ y)]\<rparr>)"
proof -
  obtain x y where "parse_args os = Inl (NotAllowedWith x y)"
    using parse_opts_conflict [of False os False default_args] assms
    by (auto simp: parse_args_def)
  then show ?thesis
    by (auto simp: script_def parse_error_msg_def log_event_def)
qed

theorem notrim_nodownload_rejected_witness:
  "NoTrim \<in> set [Quiet, NoTrim, Wd, NoDownload] \<and> NoDownload \<in> set [Quiet, NoTrim, Wd, NoDownload] \<and>
   (\<exists>x y. parse_args [Quiet, NoTrim, Wd, NoDownload] = Inl (NotAllowedWith x y) \<and>
      script demo_env [Quiet, NoTrim, Wd, NoDownload] stocked_world =
        (2, stocked_world\<lparr>trace := trace stocked_world @
              [PrintErr (''error: argument '' @ x @ '': not allowed with argument '' @ y)]\<rparr>))"
  using notrim_nodownload_rejected [of "[Quiet, NoTrim, Wd, NoDownload]" demo_env stocked_world]
  by simp

subsection \<open>The interrupt\<close>

text \<open>
  C9. A run that the user interrupts is to print
  \<^verbatim>\<open>INTERRUPTED: Terminating. Some files may not be correctly removed.\<close> and to end with
  status 0: the handler of line 98 is there for that. It is not reached when the
  interrupt arrives in the trimming and the temporary file is gone by then. Here the
  interrupt arrives during the first call of the audio tool for \<^verbatim>\<open>b.mp3\<close>, which has
  removed the output it was writing, the temporary file. On the way out of the \<^verbatim>\<open>with\<close>
  block the removal of the temporary file raises \<^verbatim>\<open>FileNotFoundError\<close> in place of the
  \<^verbatim>\<open>KeyboardInterrupt\<close>: no warning is printed, and the script ends with a traceback and
  status 1.
\<close>

theorem interrupt_lost_at_cleanup:
  "parse_args [NoDownload, Wd] = Inr (default_args\<lparr>arg_download := False, arg_wd := True\<rparr>) \<and>
   fst (script (interrupt_at (sox_to_tmp ''b.mp3'' ''/tmp/tmp0.mp3'')) [NoDownload, Wd] mixed_world) = 1 \<and>
   new_events mixed_world
     (snd (script (interrupt_at (sox_to_tmp ''b.mp3'' ''/tmp/tmp0.mp3'')) [NoDownload, Wd] mixed_world)) =
     [MkTemp ''/tmp/tmp0.mp3'', Listdir ''/home/u/Downloads'',
      Spawn (sox_to_tmp ''a.mp3'' ''/tmp/tmp0.mp3'') (Returncode 0),
      Spawn (sox_from_tmp ''a.mp3'' ''/tmp/tmp0.mp3'') (Returncode 0),
      Print ''Silence trimmed from a.mp3'',
      Spawn (sox_to_tmp ''b.mp3'' ''/tmp/tmp0.mp3'') Interrupted,
      Unlink ''/tmp/tmp0.mp3'',
      PrintErr (file_not_found_msg ''/tmp/tmp0.mp3'')]"
  by (simp add: script_defs prims demo_defs new_events_def trim_failed_msg_def trimmed_msg_def)

subsection \<open>The default directory\<close>

text \<open>
  C10. Without \<^verbatim>\<open>--wd\<close> the first thing the script does is to change to \<^verbatim>\<open>~/Downloads\<close>,
  also with \<^verbatim>\<open>--nodownload\<close>. From there on the run is the run with \<^verbatim>\<open>--wd\<close> started in
  \<^verbatim>\<open>~/Downloads\<close>: it never changes directory again, the list file it checks and clears
  is the one found from \<^verbatim>\<open>~/Downloads\<close>, and the directory it lists for the trimming is
  \<^verbatim>\<open>~/Downloads\<close>.
\<close>

theorem default_directory_first:
  assumes "parse_args os = Inr a" and "\<not> arg_wd a"
  shows "script env os w = main env (a\<lparr>arg_wd := True\<rparr>) (os_chdir (downloads_dir env) w) \<and>
         cwd (snd (script env os w)) = resolve (cwd w) (downloads_dir env) \<and>
         (\<exists>es. new_events w (snd (script env os w)) =
                  Chdir (resolve (cwd w) (downloads_dir env)) # es \<and>
               list_all (here (resolve (cwd w) (downloads_dir env)) (arg_song_list a)) es)"
proof -
  let ?d = "resolve (cwd w) (downloads_dir env)"
  let ?a = "a\<lparr>arg_wd := True\<rparr>"
  define w1 where "w1 = os_chdir (downloads_dir env) w"
  have w1: "cwd w1 = ?d" "trace w1 = trace w @ [Chdir ?d]"
    by (simp_all add: w1_def prims)
  have body: "main_body env a w = main_body env ?a w1"
    unfolding w1_def by (rule main_body_wd [OF assms(2)])
  have eq: "script env os w = main env ?a w1"
    using assms(1) body by (simp add: script_def main_def)
  have st: "steady (\<lambda>v. cwd v = ?d) (here ?d (arg_song_list a)) (main_body env ?a)"
    using main_body_here [of ?a ?d env] by simp
  have b: "cwd (snd (main_body env ?a w1)) = ?d" "grows w1 (snd (main_body env ?a w1))"
    "list_all (here ?d (arg_song_list a)) (new_events w1 (snd (main_body env ?a w1)))"
    using steadyD [OF st w1(1)] by simp_all
  define es where
    "es = new_events w1 (snd (main_body env ?a w1)) @ last_words (fst (main_body env ?a w1))"
  have "trace (snd (main env ?a w1)) = trace w @ Chdir ?d # es"
    using main_trace [of env ?a w1] trace_new_events [OF b(2)] w1(2) by (simp add: es_def)
  then have "new_events w (snd (script env os w)) = Chdir ?d # es"
    unfolding eq by (rule new_events_eq)
  moreover have "list_all (here ?d (arg_song_list a)) es"
    using b(3) last_words_here by (simp add: es_def)
  moreover have "cwd (snd (script env os w)) = ?d"
    using b(1) by (simp add: eq main_cwd)
  ultimately show ?thesis
    using eq by (simp add: w1_def)
qed

text \<open>Trimming only, with a list of another name, started in the home directory.\<close>

theorem default_directory_first_witness:
  "parse_args [NoDownload, SongList ''mine.txt''] =
     Inr (default_args\<lparr>arg_download := False, arg_song_list := ''mine.txt''\<rparr>) \<and>
   \<not> arg_wd (default_args\<lparr>arg_download := False, arg_song_list := ''mine.txt''\<rparr>) \<and>
   cwd (snd (script demo_env [NoDownload, SongList ''mine.txt''] stocked_world)) = ''/home/u/Downloads'' \<and>
   (\<exists>es. new_events stocked_world (snd (script demo_env [NoDownload, SongList ''mine.txt''] stocked_world)) =
            Chdir ''/home/u/Downloads'' # es \<and>
          list_all (here ''/home/u/Downloads'' ''mine.txt'') es) \<and>
   new_events stocked_world (snd (script demo_env [NoDownload, SongList ''mine.txt''] stocked_world)) =
     [Chdir ''/home/u/Downloads'', MkTemp ''/tmp/tmp0.mp3'', Listdir ''/home/u/Downloads'',
      Spawn (sox_to_tmp ''a.mp3'' ''/tmp/tmp0.mp3'') (Returncode 0),
      Spawn (sox_from_tmp ''a.mp3'' ''/tmp/tmp0.mp3'') (Returncode 0),
      Print ''Silence trimmed from a.mp3'', Unlink ''/tmp/tmp0.mp3'']"
proof -
  let ?a = "default_args\<lparr>arg_download := False, arg_song_list := ''mine.txt''\<rparr>"
  have p: "parse_args [NoDownload, SongList ''mine.txt''] = Inr ?a"
    by (simp add: parse_args_def)
  have n: "\<not> arg_wd ?a"
    by (simp add: default_args_def)
  have d: "resolve (cwd stocked_world) (downloads_dir demo_env) = ''/home/u/Downloads''"
    "arg_song_list ?a = ''mine.txt''"
    by (simp_all add: resolve_def demo_defs)
  have t: "new_events stocked_world (snd (script demo_env [NoDownload, SongList ''mine.txt''] stocked_world)) =
     [Chdir ''/home/u/Downloads'', MkTemp ''/tmp/tmp0.mp3'', Listdir ''/home/u/Downloads'',
      Spawn (sox_to_tmp ''a.mp3'' ''/tmp/tmp0.mp3'') (Returncode 0),
      Spawn (sox_from_tmp ''a.mp3'' ''/tmp/tmp0.mp3'') (Returncode 0),
      Print ''Silence trimmed from a.mp3'', Unlink ''/tmp/tmp0.mp3'']"
    by (simp add: script_defs prims demo_defs new_events_def trim_failed_msg_def trimmed_msg_def)
  show ?thesis
    using default_directory_first [OF p n, of demo_env stocked_world, THEN conjunct2] p n d t
    by simp
qed

end
